theory Spec2Isabelle
  imports Main "HOL-Library.Word"
begin

section \<open>Machine types and error values\<close>

text \<open>
  \<^verbatim>\<open>GLuint\<close> is OpenGL's unsigned 32-bit object name and \<^verbatim>\<open>int\<close> is a 32-bit
  two's complement integer; both are words, the second one read through \<open>sint\<close>.
\<close>

type_synonym GLuint = "32 word"
type_synonym c_int = "32 word"

text \<open>
  \<^verbatim>\<open>std::numeric_limits<T>::max()\<close> of an unsigned type of the width of \<open>'a\<close>:
  all bits set.
\<close>

definition numeric_limits_max :: "'a::len word" where
  "numeric_limits_max = word_of_nat (2 ^ LENGTH('a) - 1)"

text \<open>
  The two ways in which the constructors of \<^verbatim>\<open>internal_opengl_geometry.h\<close> leave
  without an object: a thrown \<^verbatim>\<open>std::logic_error\<close> with its message, and a failed
  \<^verbatim>\<open>DRAKE_DEMAND\<close> with the text of the demanded condition.
\<close>

datatype error = LogicError string | DemandFailure string

section \<open>OpenGlGeometry\<close>

record OpenGlGeometry =
  vertex_array :: GLuint
  vertex_buffer :: GLuint
  index_buffer :: GLuint
  index_buffer_size :: c_int
  has_tex_coord :: bool
  v_count :: c_int

text \<open>\<^verbatim>\<open>static constexpr GLuint kInvalid = std::numeric_limits<GLuint>::max();\<close>\<close>

definition kInvalid :: GLuint where
  "kInvalid = numeric_limits_max"

text \<open>
  \<^verbatim>\<open>OpenGlGeometry() = default;\<close> with the default member initialisers
  \<^verbatim>\<open>{kInvalid}\<close>, \<^verbatim>\<open>{kInvalid}\<close>, \<^verbatim>\<open>{kInvalid}\<close>, \<^verbatim>\<open>{0}\<close>, \<^verbatim>\<open>{}\<close>, \<^verbatim>\<open>{}\<close>.
\<close>

definition OpenGlGeometry_default :: OpenGlGeometry where
  "OpenGlGeometry_default =
     \<lparr>vertex_array = kInvalid, vertex_buffer = kInvalid, index_buffer = kInvalid,
      index_buffer_size = 0, has_tex_coord = False, v_count = 0\<rparr>"

text \<open>
  The six-argument constructor: the member initialiser list stores every
  argument, the body throws when the stored index buffer size is negative.
\<close>

definition OpenGlGeometry_ctor ::
  "GLuint \<Rightarrow> GLuint \<Rightarrow> GLuint \<Rightarrow> c_int \<Rightarrow> bool \<Rightarrow> c_int \<Rightarrow> error + OpenGlGeometry" where
  "OpenGlGeometry_ctor vertex_array_in vertex_buffer_in index_buffer_in
       index_buffer_size_in has_tex_coord_in v_count_in =
     (let this = \<lparr>vertex_array = vertex_array_in, vertex_buffer = vertex_buffer_in,
                  index_buffer = index_buffer_in, index_buffer_size = index_buffer_size_in,
                  has_tex_coord = has_tex_coord_in, v_count = v_count_in\<rparr>
      in if sint (index_buffer_size this) < 0
         then Inl (LogicError ''Index buffer size must be non-negative'')
         else Inr this)"

definition is_defined :: "OpenGlGeometry \<Rightarrow> bool" where
  "is_defined this \<longleftrightarrow>
     vertex_array this \<noteq> kInvalid \<and> vertex_buffer this \<noteq> kInvalid \<and>
     index_buffer this \<noteq> kInvalid"

text \<open>\<^verbatim>\<open>throw_if_undefined\<close> returns nothing; it throws the caller's message or not.\<close>

definition throw_if_undefined :: "OpenGlGeometry \<Rightarrow> string \<Rightarrow> error + unit" where
  "throw_if_undefined this message =
     (if \<not> is_defined this then Inl (LogicError message) else Inr ())"

section \<open>OpenGlInstance\<close>

text \<open>
  \<^verbatim>\<open>enum RenderType { kColor = 0, kLabel, kDepth, kTypeCount };\<close> with the
  value of each enumerator, which is what indexes \<^verbatim>\<open>shader_data\<close>.
\<close>

datatype RenderType = kColor | kLabel | kDepth | kTypeCount

fun RenderType_value :: "RenderType \<Rightarrow> nat" where
  "RenderType_value kColor = 0"
| "RenderType_value kLabel = 1"
| "RenderType_value kDepth = 2"
| "RenderType_value kTypeCount = 3"

text \<open>
  Modelled from the spec: the macro \<^verbatim>\<open>DRAKE_DEMAND\<close> (\<^verbatim>\<open>drake_assert.h\<close>) is
  not among the sources. Following section 4.2 and section 7 of the
  specification, a demand whose condition is false ends the operation with a
  precondition violation, and one whose condition is true does nothing. The
  failure carries the text of the condition.
\<close>

definition DRAKE_DEMAND :: "bool \<Rightarrow> string \<Rightarrow> error + unit" where
  "DRAKE_DEMAND condition expr = (if condition then Inr () else Inl (DemandFailure expr))"

text \<open>
  The types \<^verbatim>\<open>math::RigidTransformd\<close>, \<^verbatim>\<open>Vector3<double>\<close> and
  \<^verbatim>\<open>ShaderProgramData\<close> are declared outside these sources and are only stored
  here, so they are the type parameters \<open>'pose\<close>, \<open>'scale\<close> and \<open>'sd\<close>. The array
  \<^verbatim>\<open>std::array<ShaderProgramData, RenderType::kTypeCount>\<close> is a list.
\<close>

record ('pose, 'scale, 'sd) OpenGlInstance =
  geometry :: c_int
  X_WG :: 'pose
  scale :: 'scale
  shader_data :: "'sd list"

text \<open>
  The constructor. Two things it uses of \<^verbatim>\<open>ShaderProgramData\<close> are parameters:
  \<open>shader_id_is_valid d\<close> stands for \<^verbatim>\<open>d.shader_id().is_valid()\<close> and
  \<open>default_data\<close> for the default-constructed \<^verbatim>\<open>ShaderProgramData\<close> that fills
  the array before the body runs. The statements of the body run in the
  source's order; the first failed demand ends the construction.
\<close>

definition OpenGlInstance_ctor ::
  "('sd \<Rightarrow> bool) \<Rightarrow> 'sd \<Rightarrow> c_int \<Rightarrow> 'pose \<Rightarrow> 'scale \<Rightarrow> 'sd \<Rightarrow> 'sd \<Rightarrow> 'sd
     \<Rightarrow> error + ('pose, 'scale, 'sd) OpenGlInstance" where
  "OpenGlInstance_ctor shader_id_is_valid default_data g_in pose_in scale_in
       color_data depth_data label_data =
     (let this0 = \<lparr>geometry = g_in, X_WG = pose_in, scale = scale_in,
                   shader_data = replicate (RenderType_value kTypeCount) default_data\<rparr>
      in case DRAKE_DEMAND (shader_id_is_valid color_data)
                ''color_data.shader_id().is_valid()'' of
           Inl e \<Rightarrow> Inl e
         | Inr _ \<Rightarrow>
      (case DRAKE_DEMAND (shader_id_is_valid depth_data)
                ''depth_data.shader_id().is_valid()'' of
           Inl e \<Rightarrow> Inl e
         | Inr _ \<Rightarrow>
      (case DRAKE_DEMAND (shader_id_is_valid label_data)
                ''label_data.shader_id().is_valid()'' of
           Inl e \<Rightarrow> Inl e
         | Inr _ \<Rightarrow>
      (let this1 = this0\<lparr>shader_data :=
                     (shader_data this0)[RenderType_value kColor := color_data]\<rparr>;
           this2 = this1\<lparr>shader_data :=
                     (shader_data this1)[RenderType_value kDepth := depth_data]\<rparr>;
           this3 = this2\<lparr>shader_data :=
                     (shader_data this2)[RenderType_value kLabel := label_data]\<rparr>
       in case DRAKE_DEMAND (0 \<le> sint (geometry this3)) ''geometry >= 0'' of
            Inl e \<Rightarrow> Inl e
          | Inr _ \<Rightarrow> Inr this3))))"


section \<open>Pixel types\<close>

text \<open>
  The three scoped enumerations of \<^verbatim>\<open>pixel_types.h\<close>. A scoped enumerator is
  written with its enumeration in front, \<^verbatim>\<open>PixelFormat::kDepth\<close>, and so is the
  constructor here; that also keeps \<^verbatim>\<open>PixelFormat::kDepth\<close> apart from the render
  type \<^verbatim>\<open>kDepth\<close>.
\<close>

datatype PixelType =
  PixelType_kRgb8U | PixelType_kBgr8U | PixelType_kRgba8U | PixelType_kBgra8U
| PixelType_kGrey8U | PixelType_kDepth16U | PixelType_kDepth32F | PixelType_kLabel16I
| PixelType_kExpr

datatype PixelFormat =
  PixelFormat_kRgb | PixelFormat_kBgr | PixelFormat_kRgba | PixelFormat_kBgra
| PixelFormat_kGrey | PixelFormat_kDepth | PixelFormat_kLabel | PixelFormat_kExpr

datatype PixelScalar =
  PixelScalar_k8U | PixelScalar_k16I | PixelScalar_k16U | PixelScalar_k32F

text \<open>The types that the specialisations name as their \<^verbatim>\<open>ChannelType\<close>.\<close>

datatype ChannelTypeName = uint8_t | int16_t | uint16_t | c_float | symbolic_Expression

text \<open>
  A \<^verbatim>\<open>float\<close> is an IEEE 754 binary32 value, kept as its three bit fields.
  \<open>fpclassify\<close> and \<open>signbit\<close> read it as the functions of \<^verbatim>\<open><cmath>\<close> do.
\<close>

datatype float32 =
  Binary32 (sign_field: bool) (exponent_field: "8 word") (fraction_field: "23 word")

datatype fp_class = FP_ZERO | FP_SUBNORMAL | FP_NORMAL | FP_INFINITE | FP_NAN

definition fpclassify :: "float32 \<Rightarrow> fp_class" where
  "fpclassify x =
     (if exponent_field x = 0 then (if fraction_field x = 0 then FP_ZERO else FP_SUBNORMAL)
      else if exponent_field x = numeric_limits_max
      then (if fraction_field x = 0 then FP_INFINITE else FP_NAN)
      else FP_NORMAL)"

definition signbit :: "float32 \<Rightarrow> bool" where
  "signbit x = sign_field x"

text \<open>The literal \<^verbatim>\<open>0.0f\<close> and \<^verbatim>\<open>std::numeric_limits<float>::infinity()\<close>.\<close>

definition float_literal_zero :: float32 where
  "float_literal_zero = Binary32 False 0 0"

definition numeric_limits_infinity :: float32 where
  "numeric_limits_infinity = Binary32 False 255 0"

text \<open>A sentinel is a value of the specialisation's channel type.\<close>

datatype ChannelValue = FloatValue float32 | Uint16Value "16 word"

text \<open>
  What a specialisation of \<^verbatim>\<open>ImageTraits\<close> declares. A member that a
  specialisation does not declare is \<open>None\<close>: naming it in C++ does not compile.
\<close>

record ImageTraits =
  ChannelType :: ChannelTypeName
  kNumChannels :: c_int
  kPixelScalar :: "PixelScalar option"
  kPixelFormat :: PixelFormat
  kTooClose :: "ChannelValue option"
  kTooFar :: "ChannelValue option"

text \<open>The nine specialisations, in the order of the header.\<close>

fun ImageTraits_of :: "PixelType \<Rightarrow> ImageTraits" where
  "ImageTraits_of PixelType_kRgb8U =
     \<lparr>ChannelType = uint8_t, kNumChannels = 3, kPixelScalar = Some PixelScalar_k8U,
      kPixelFormat = PixelFormat_kRgb, kTooClose = None, kTooFar = None\<rparr>"
| "ImageTraits_of PixelType_kBgr8U =
     \<lparr>ChannelType = uint8_t, kNumChannels = 3, kPixelScalar = Some PixelScalar_k8U,
      kPixelFormat = PixelFormat_kBgr, kTooClose = None, kTooFar = None\<rparr>"
| "ImageTraits_of PixelType_kRgba8U =
     \<lparr>ChannelType = uint8_t, kNumChannels = 4, kPixelScalar = Some PixelScalar_k8U,
      kPixelFormat = PixelFormat_kRgba, kTooClose = None, kTooFar = None\<rparr>"
| "ImageTraits_of PixelType_kBgra8U =
     \<lparr>ChannelType = uint8_t, kNumChannels = 4, kPixelScalar = Some PixelScalar_k8U,
      kPixelFormat = PixelFormat_kBgra, kTooClose = None, kTooFar = None\<rparr>"
| "ImageTraits_of PixelType_kDepth32F =
     \<lparr>ChannelType = c_float, kNumChannels = 1, kPixelScalar = Some PixelScalar_k32F,
      kPixelFormat = PixelFormat_kDepth,
      kTooClose = Some (FloatValue float_literal_zero),
      kTooFar = Some (FloatValue numeric_limits_infinity)\<rparr>"
| "ImageTraits_of PixelType_kDepth16U =
     \<lparr>ChannelType = uint16_t, kNumChannels = 1, kPixelScalar = Some PixelScalar_k16U,
      kPixelFormat = PixelFormat_kDepth,
      kTooClose = Some (Uint16Value 0),
      kTooFar = Some (Uint16Value numeric_limits_max)\<rparr>"
| "ImageTraits_of PixelType_kLabel16I =
     \<lparr>ChannelType = int16_t, kNumChannels = 1, kPixelScalar = Some PixelScalar_k16I,
      kPixelFormat = PixelFormat_kLabel, kTooClose = None, kTooFar = None\<rparr>"
| "ImageTraits_of PixelType_kGrey8U =
     \<lparr>ChannelType = uint8_t, kNumChannels = 1, kPixelScalar = Some PixelScalar_k8U,
      kPixelFormat = PixelFormat_kGrey, kTooClose = None, kTooFar = None\<rparr>"
| "ImageTraits_of PixelType_kExpr =
     \<lparr>ChannelType = symbolic_Expression, kNumChannels = 1, kPixelScalar = None,
      kPixelFormat = PixelFormat_kExpr, kTooClose = None, kTooFar = None\<rparr>"

section \<open>Properties of OpenGlGeometry\<close>

lemma kInvalid_all_ones: "kInvalid = - 1"
  by (simp add: kInvalid_def numeric_limits_max_def)

lemma kInvalid_greatest: "w \<le> kInvalid"
  by (simp add: kInvalid_all_ones)

lemma unat_kInvalid: "unat kInvalid = 4294967295"
  by (simp add: kInvalid_def numeric_limits_max_def)

text \<open>
  Claim C1. The sentinel \<open>kInvalid\<close> is the greatest value of the handle type
  (every handle is at most \<open>kInvalid\<close>, which reads as \<open>2^32 - 1\<close>), and a
  geometry is defined exactly when none of its three handles is the sentinel.
  The three other fields are arbitrary here and changing them does not change
  the answer; in particular each of the eight valid/invalid combinations of
  the three handles gives the value of the conjunction.
\<close>

theorem is_defined_iff_no_invalid_handle:
  "(\<forall>w :: GLuint. w \<le> kInvalid) \<and> unat kInvalid = 2 ^ 32 - 1 \<and>
   is_defined \<lparr>vertex_array = va, vertex_buffer = vb, index_buffer = ib,
               index_buffer_size = n, has_tex_coord = t, v_count = c\<rparr>
     = (va \<noteq> kInvalid \<and> vb \<noteq> kInvalid \<and> ib \<noteq> kInvalid) \<and>
   is_defined (g\<lparr>index_buffer_size := n', has_tex_coord := t', v_count := c'\<rparr>)
     = is_defined g \<and>
   is_defined g = (kInvalid \<notin> {vertex_array g, vertex_buffer g, index_buffer g})"
proof -
  have "is_defined g = (kInvalid \<notin> {vertex_array g, vertex_buffer g, index_buffer g})"
    by (auto simp: is_defined_def)
  then show ?thesis
    by (simp add: kInvalid_greatest unat_kInvalid is_defined_def)
qed

text \<open>
  Claim C10. The default-constructed geometry holds the sentinel in all three
  handles, zero in both counts and no texture coordinates; it is not defined,
  and \<open>throw_if_undefined\<close> throws the given message on it, whatever the
  message.
\<close>

theorem default_geometry_undefined:
  "vertex_array OpenGlGeometry_default = kInvalid \<and>
   vertex_buffer OpenGlGeometry_default = kInvalid \<and>
   index_buffer OpenGlGeometry_default = kInvalid \<and>
   kInvalid = numeric_limits_max \<and> unat kInvalid = 2 ^ 32 - 1 \<and>
   index_buffer_size OpenGlGeometry_default = 0 \<and>
   v_count OpenGlGeometry_default = 0 \<and>
   has_tex_coord OpenGlGeometry_default = False \<and>
   is_defined OpenGlGeometry_default = False \<and>
   throw_if_undefined OpenGlGeometry_default message = Inl (LogicError message)"
  by (simp add: OpenGlGeometry_default_def is_defined_def throw_if_undefined_def
      kInvalid_def numeric_limits_max_def)

text \<open>
  Claim C2. A negative index count makes the constructor throw its
  \<^verbatim>\<open>std::logic_error\<close> (the specification's InvalidArgument); with a
  non-negative index count the constructor returns the geometry that holds
  exactly the six arguments.
\<close>

theorem geometry_ctor_index_count:
  "(sint n < 0 \<longrightarrow>
      OpenGlGeometry_ctor va vb ib n t c =
        Inl (LogicError ''Index buffer size must be non-negative'')) \<and>
   (0 \<le> sint n \<longrightarrow>
      OpenGlGeometry_ctor va vb ib n t c =
        Inr \<lparr>vertex_array = va, vertex_buffer = vb, index_buffer = ib,
             index_buffer_size = n, has_tex_coord = t, v_count = c\<rparr>)"
  by (simp add: OpenGlGeometry_ctor_def)

theorem geometry_ctor_index_count_witness:
  "OpenGlGeometry_ctor 1 2 3 (- 1) True 24 =
     Inl (LogicError ''Index buffer size must be non-negative'') \<and>
   OpenGlGeometry_ctor 1 2 3 36 True 24 =
     Inr \<lparr>vertex_array = 1, vertex_buffer = 2, index_buffer = 3,
          index_buffer_size = 36, has_tex_coord = True, v_count = 24\<rparr> \<and>
   OpenGlGeometry_ctor 1 2 3 0 True 24 =
     Inr \<lparr>vertex_array = 1, vertex_buffer = 2, index_buffer = 3,
          index_buffer_size = 0, has_tex_coord = True, v_count = 24\<rparr>"
  using geometry_ctor_index_count [of "- 1" 1 2 3 True 24]
    geometry_ctor_index_count [of 36 1 2 3 True 24]
    geometry_ctor_index_count [of 0 1 2 3 True 24]
  by simp

text \<open>
  Claim C3, as stated, fails: the constructor never looks at the vertex count.
  With index count \<open>0\<close> and vertex count \<open>-1\<close> it returns a geometry that
  stores \<open>-1\<close>.
\<close>

theorem negative_v_count_accepted:
  "sint (- 1 :: c_int) < 0 \<and>
   OpenGlGeometry_ctor 1 2 3 0 False (- 1) =
     Inr \<lparr>vertex_array = 1, vertex_buffer = 2, index_buffer = 3,
          index_buffer_size = 0, has_tex_coord = False, v_count = - 1\<rparr>"
  by (simp add: OpenGlGeometry_ctor_def)

text \<open>
  Claim C3, amended. The constructor throws its \<^verbatim>\<open>std::logic_error\<close> (the
  specification's InvalidArgument) exactly when the index count is negative,
  whatever the vertex count is, and it fails in no other way; with a
  non-negative index count it succeeds and stores the vertex count it was
  given, negative or not.
\<close>

theorem geometry_ctor_throws_iff_index_count_negative:
  "(OpenGlGeometry_ctor va vb ib n t c =
      Inl (LogicError ''Index buffer size must be non-negative'')) = (sint n < 0) \<and>
   isl (OpenGlGeometry_ctor va vb ib n t c) = (sint n < 0) \<and>
   (sint n < 0 \<longrightarrow>
      OpenGlGeometry_ctor va vb ib n t c =
        Inl (LogicError ''Index buffer size must be non-negative'')) \<and>
   (0 \<le> sint n \<longrightarrow>
      (\<exists>g. OpenGlGeometry_ctor va vb ib n t c = Inr g \<and> v_count g = c))"
  by (simp add: OpenGlGeometry_ctor_def)

theorem geometry_ctor_throws_iff_index_count_negative_witness:
  "OpenGlGeometry_ctor 1 2 3 (- 1) False (- 1) =
     Inl (LogicError ''Index buffer size must be non-negative'') \<and>
   OpenGlGeometry_ctor 1 2 3 (- 1) False 24 =
     Inl (LogicError ''Index buffer size must be non-negative'') \<and>
   isl (OpenGlGeometry_ctor 1 2 3 0 False (- 1)) = False \<and>
   (\<exists>g. OpenGlGeometry_ctor 1 2 3 0 False (- 1) = Inr g \<and> v_count g = - 1)"
  using geometry_ctor_throws_iff_index_count_negative [of 1 2 3 "- 1" False "- 1"]
    geometry_ctor_throws_iff_index_count_negative [of 1 2 3 "- 1" False 24]
    geometry_ctor_throws_iff_index_count_negative [of 1 2 3 0 False "- 1"]
  by simp

section \<open>Properties of OpenGlInstance\<close>

text \<open>
  After the three assignments the array holds the colour data at index 0, the
  label data at index 1 and the depth data at index 2.
\<close>

lemma shader_data_filled:
  "(replicate (RenderType_value kTypeCount) d)
     [RenderType_value kColor := c, RenderType_value kDepth := dd,
      RenderType_value kLabel := l] = [c, l, dd]"
  by (simp add: numeral_3_eq_3 numeral_2_eq_2)

text \<open>The outcome of the constructor, by the first demand that fails.\<close>

lemma OpenGlInstance_ctor_cases:
  "OpenGlInstance_ctor valid dflt g p s c d l =
     (if \<not> valid c then Inl (DemandFailure ''color_data.shader_id().is_valid()'')
      else if \<not> valid d then Inl (DemandFailure ''depth_data.shader_id().is_valid()'')
      else if \<not> valid l then Inl (DemandFailure ''label_data.shader_id().is_valid()'')
      else if sint g < 0 then Inl (DemandFailure ''geometry >= 0'')
      else Inr \<lparr>geometry = g, X_WG = p, scale = s, shader_data = [c, l, d]\<rparr>)"
  using shader_data_filled [of dflt c d l]
  by (simp add: OpenGlInstance_ctor_def DRAKE_DEMAND_def Let_def)

text \<open>
  Claim C4. If any of the three shader data has an invalid shader id, in
  whichever position, the construction ends in a failed demand (the
  specification's PreconditionViolation). For a non-negative geometry index
  the construction fails exactly when at least one of the three is invalid;
  with three valid ones and a non-negative geometry index it succeeds.
\<close>

theorem instance_ctor_fails_iff_invalid_shader:
  "(\<not> valid c \<or> \<not> valid d \<or> \<not> valid l \<longrightarrow>
      (\<exists>expr. OpenGlInstance_ctor valid dflt g p s c d l = Inl (DemandFailure expr))) \<and>
   (0 \<le> sint g \<longrightarrow>
      isl (OpenGlInstance_ctor valid dflt g p s c d l)
        = (\<not> valid c \<or> \<not> valid d \<or> \<not> valid l)) \<and>
   (valid c \<and> valid d \<and> valid l \<and> 0 \<le> sint g \<longrightarrow>
      (\<exists>inst. OpenGlInstance_ctor valid dflt g p s c d l = Inr inst))"
  by (simp add: OpenGlInstance_ctor_cases)

theorem instance_ctor_fails_iff_invalid_shader_witness:
  "(\<exists>expr. OpenGlInstance_ctor (\<lambda>x :: nat. 0 < x) 0 7 () () 0 2 3
      = Inl (DemandFailure expr)) \<and>
   (\<exists>expr. OpenGlInstance_ctor (\<lambda>x :: nat. 0 < x) 0 7 () () 1 0 3
      = Inl (DemandFailure expr)) \<and>
   (\<exists>expr. OpenGlInstance_ctor (\<lambda>x :: nat. 0 < x) 0 7 () () 1 2 0
      = Inl (DemandFailure expr)) \<and>
   (\<exists>expr. OpenGlInstance_ctor (\<lambda>x :: nat. 0 < x) 0 7 () () 0 0 0
      = Inl (DemandFailure expr)) \<and>
   isl (OpenGlInstance_ctor (\<lambda>x :: nat. 0 < x) 0 7 () () 1 2 3) = False \<and>
   (\<exists>inst. OpenGlInstance_ctor (\<lambda>x :: nat. 0 < x) 0 7 () () 1 2 3 = Inr inst)"
  using instance_ctor_fails_iff_invalid_shader
      [where valid = "\<lambda>x :: nat. 0 < x" and dflt = 0 and g = 7
         and p = "()" and s = "()" and c = 0 and d = 2 and l = 3]
    instance_ctor_fails_iff_invalid_shader
      [where valid = "\<lambda>x :: nat. 0 < x" and dflt = 0 and g = 7
         and p = "()" and s = "()" and c = 1 and d = 0 and l = 3]
    instance_ctor_fails_iff_invalid_shader
      [where valid = "\<lambda>x :: nat. 0 < x" and dflt = 0 and g = 7
         and p = "()" and s = "()" and c = 1 and d = 2 and l = 0]
    instance_ctor_fails_iff_invalid_shader
      [where valid = "\<lambda>x :: nat. 0 < x" and dflt = 0 and g = 7
         and p = "()" and s = "()" and c = 0 and d = 0 and l = 0]
    instance_ctor_fails_iff_invalid_shader
      [where valid = "\<lambda>x :: nat. 0 < x" and dflt = 0 and g = 7
         and p = "()" and s = "()" and c = 1 and d = 2 and l = 3]
  by simp

text \<open>
  Claim C5. A negative geometry index always makes the construction fail.
  With three valid shader data the construction fails exactly when the
  geometry index is negative, and then on the demand \<^verbatim>\<open>geometry >= 0\<close>; for
  zero and every positive index it succeeds and the instance's \<open>geometry\<close>
  field is the index supplied.
\<close>

theorem instance_ctor_fails_iff_negative_geometry:
  "(sint g < 0 \<longrightarrow> isl (OpenGlInstance_ctor valid dflt g p s c d l)) \<and>
   (valid c \<and> valid d \<and> valid l \<longrightarrow>
      isl (OpenGlInstance_ctor valid dflt g p s c d l) = (sint g < 0) \<and>
      (sint g < 0 \<longrightarrow>
         OpenGlInstance_ctor valid dflt g p s c d l = Inl (DemandFailure ''geometry >= 0'')) \<and>
      (0 \<le> sint g \<longrightarrow>
         (\<exists>inst. OpenGlInstance_ctor valid dflt g p s c d l = Inr inst \<and> geometry inst = g)))"
  by (simp add: OpenGlInstance_ctor_cases)

theorem instance_ctor_fails_iff_negative_geometry_witness:
  "OpenGlInstance_ctor (\<lambda>x :: nat. 0 < x) 0 (- 1) () () 1 2 3
     = Inl (DemandFailure ''geometry >= 0'') \<and>
   (\<exists>inst. OpenGlInstance_ctor (\<lambda>x :: nat. 0 < x) 0 0 () () 1 2 3 = Inr inst
      \<and> geometry inst = 0) \<and>
   (\<exists>inst. OpenGlInstance_ctor (\<lambda>x :: nat. 0 < x) 0 5 () () 1 2 3 = Inr inst
      \<and> geometry inst = 5)"
  using instance_ctor_fails_iff_negative_geometry
      [where valid = "\<lambda>x :: nat. 0 < x" and dflt = 0 and g = "- 1"
         and p = "()" and s = "()" and c = 1 and d = 2 and l = 3]
    instance_ctor_fails_iff_negative_geometry
      [where valid = "\<lambda>x :: nat. 0 < x" and dflt = 0 and g = "0"
         and p = "()" and s = "()" and c = 1 and d = 2 and l = 3]
    instance_ctor_fails_iff_negative_geometry
      [where valid = "\<lambda>x :: nat. 0 < x" and dflt = 0 and g = "5"
         and p = "()" and s = "()" and c = 1 and d = 2 and l = 3]
  by simp



section \<open>Properties of the image traits\<close>

text \<open>
  Claim C7. For \<open>kDepth32F\<close> the sentinel \<open>kTooClose\<close> is the float \<open>0.0f\<close>, a
  positive zero, and \<open>kTooFar\<close> is positive infinity. For \<open>kDepth16U\<close> the
  sentinel \<open>kTooClose\<close> is \<open>0\<close> and \<open>kTooFar\<close> is \<open>65535\<close>, the greatest 16-bit
  unsigned value.
\<close>

theorem depth_sentinel_values:
  "kTooClose (ImageTraits_of PixelType_kDepth32F) = Some (FloatValue float_literal_zero) \<and>
   fpclassify float_literal_zero = FP_ZERO \<and> signbit float_literal_zero = False \<and>
   kTooFar (ImageTraits_of PixelType_kDepth32F) = Some (FloatValue numeric_limits_infinity) \<and>
   fpclassify numeric_limits_infinity = FP_INFINITE \<and>
   signbit numeric_limits_infinity = False \<and>
   kTooClose (ImageTraits_of PixelType_kDepth16U) = Some (Uint16Value 0) \<and>
   kTooFar (ImageTraits_of PixelType_kDepth16U) = Some (Uint16Value 65535) \<and>
   (\<forall>w :: 16 word. w \<le> 65535) \<and> unat (65535 :: 16 word) = 2 ^ 16 - 1"
proof -
  have top: "(numeric_limits_max :: 16 word) = 65535"
    by (simp add: numeric_limits_max_def)
  have greatest: "w \<le> (65535 :: 16 word)" for w
  proof -
    have "w \<le> - 1" by simp
    also have "(- 1 :: 16 word) = 65535" by simp
    finally show ?thesis .
  qed
  show ?thesis
    by (simp add: top greatest fpclassify_def signbit_def float_literal_zero_def
        numeric_limits_infinity_def numeric_limits_max_def)
qed

text \<open>
  Claim C8, as stated, fails at \<open>kExpr\<close>: its specialisation declares no
  \<open>kPixelScalar\<close>, and its channel type is \<^verbatim>\<open>symbolic::Expression\<close>, none of the
  four scalar kinds.
\<close>

theorem kExpr_has_no_scalar:
  "kPixelScalar (ImageTraits_of PixelType_kExpr) = None \<and>
   ChannelType (ImageTraits_of PixelType_kExpr) = symbolic_Expression"
  by simp

text \<open>
  Claim C8, amended. Every pixel type has a channel count between 1 and 4 and
  a pixel format. Every pixel type other than \<open>kExpr\<close> has a pixel scalar, which
  is one of the four enumerators of \<open>PixelScalar\<close>; \<open>kExpr\<close>, and only \<open>kExpr\<close>,
  has none, and it is the only one of format \<open>kExpr\<close>.
\<close>

theorem traits_channels_and_scalar:
  "1 \<le> sint (kNumChannels (ImageTraits_of t)) \<and>
   sint (kNumChannels (ImageTraits_of t)) \<le> 4 \<and>
   ((kPixelScalar (ImageTraits_of t) = None) = (t = PixelType_kExpr)) \<and>
   ((kPixelFormat (ImageTraits_of t) = PixelFormat_kExpr) = (t = PixelType_kExpr)) \<and>
   (UNIV :: PixelScalar set)
     = {PixelScalar_k8U, PixelScalar_k16I, PixelScalar_k16U, PixelScalar_k32F}"
proof -
  have "(UNIV :: PixelScalar set)
     = {PixelScalar_k8U, PixelScalar_k16I, PixelScalar_k16U, PixelScalar_k32F}"
  proof -
    have "x \<in> {PixelScalar_k8U, PixelScalar_k16I, PixelScalar_k16U, PixelScalar_k32F}"
      for x :: PixelScalar
      by (cases x) simp_all
    then show ?thesis by blast
  qed
  then show ?thesis
    by (cases t) simp_all
qed

text \<open>
  Claim C9. A specialisation declares \<open>kTooClose\<close> exactly when its format is
  \<open>kDepth\<close>, and likewise \<open>kTooFar\<close>; the depth formats are \<open>kDepth32F\<close> and
  \<open>kDepth16U\<close>, and the seven other pixel types declare neither sentinel.
\<close>

theorem sentinels_iff_depth:
  "((kTooClose (ImageTraits_of t) \<noteq> None)
      = (kPixelFormat (ImageTraits_of t) = PixelFormat_kDepth)) \<and>
   ((kTooFar (ImageTraits_of t) \<noteq> None)
      = (kPixelFormat (ImageTraits_of t) = PixelFormat_kDepth)) \<and>
   ((kPixelFormat (ImageTraits_of t) = PixelFormat_kDepth)
      = (t = PixelType_kDepth32F \<or> t = PixelType_kDepth16U)) \<and>
   ((kTooClose (ImageTraits_of t) = None \<and> kTooFar (ImageTraits_of t) = None)
      = (t = PixelType_kRgb8U \<or> t = PixelType_kBgr8U \<or> t = PixelType_kRgba8U \<or>
         t = PixelType_kBgra8U \<or> t = PixelType_kGrey8U \<or> t = PixelType_kLabel16I \<or>
         t = PixelType_kExpr))"
  by (cases t) simp_all

end
